theory Spec2Isabelle
  imports Complex_Main "HOL-Library.List_Lexorder" "HOL-Library.Char_ord"
begin

section \<open>Python values and library operations used by code.py\<close>

text \<open>
  Exceptions are values. Only the classes that the modelled statements can raise are
  listed; \<open>OSError\<close> and \<open>RuntimeError\<close> are what the network collaborator raises
  on a transport fault, \<open>MemoryError\<close> what the display library raises when an
  allocation fails. All of them derive from Python's \<open>Exception\<close>.
\<close>

datatype error =
  ValueError | IndexError | KeyError | TypeError | AttributeError
  | OverflowError | OSError | RuntimeError | MemoryError

definition bind :: "error + 'a \<Rightarrow> ('a \<Rightarrow> error + 'b) \<Rightarrow> error + 'b" where
  \<comment> \<open>sequencing of two statements: an exception of the first skips the second\<close>
  "bind m f = (case m of Inl e \<Rightarrow> Inl e | Inr x \<Rightarrow> f x)"

subsection \<open>Strings\<close>

text \<open>
  A Python \<open>str\<close> is modelled as a \<open>string\<close> of code points below 256.
  \<open>is_space\<close> is \<open>str.isspace\<close> on that range: it decides what \<open>str.split()\<close>
  separates on and what \<open>int()\<close> strips.
\<close>

definition is_space :: "char \<Rightarrow> bool" where
  "is_space c = (c \<in> set [CHR 0x09, CHR 0x0A, CHR 0x0B, CHR 0x0C, CHR 0x0D,
                            CHR 0x1C, CHR 0x1D, CHR 0x1E, CHR 0x1F, CHR 0x20,
                            CHR 0x85, CHR 0xA0])"

fun split_by :: "(char \<Rightarrow> bool) \<Rightarrow> string \<Rightarrow> string list" where
  "split_by P [] = [[]]"
| "split_by P (x # xs) =
     (if P x then [] # split_by P xs
      else (case split_by P xs of [] \<Rightarrow> [[x]] | p # ps \<Rightarrow> (x # p) # ps))"

definition split_on :: "char \<Rightarrow> string \<Rightarrow> string list" where
  \<comment> \<open>\<open>s.split(c)\<close> for a one-character separator\<close>
  "split_on c s = split_by (\<lambda>x. x = c) s"

definition split_ws :: "string \<Rightarrow> string list" where
  \<comment> \<open>\<open>s.split()\<close>: runs of whitespace separate, no empty token is produced\<close>
  "split_ws s = filter (\<lambda>t. t \<noteq> []) (split_by is_space s)"

definition rsplit1 :: "char \<Rightarrow> string \<Rightarrow> string list" where
  \<comment> \<open>\<open>s.rsplit(c, 1)\<close>: cut at the last occurrence of the separator, if there is one\<close>
  "rsplit1 c s =
     (if c \<in> set s
      then [rev (tl (dropWhile (\<lambda>x. x \<noteq> c) (rev s))), rev (takeWhile (\<lambda>x. x \<noteq> c) (rev s))]
      else [s])"

definition strip :: "string \<Rightarrow> string" where
  "strip s = rev (dropWhile is_space (rev (dropWhile is_space s)))"

definition join :: "string \<Rightarrow> string list \<Rightarrow> string" where
  \<comment> \<open>\<open>sep.join(xs)\<close>\<close>
  "join sep xs = (case xs of [] \<Rightarrow> [] | y # ys \<Rightarrow> y @ concat (map (\<lambda>t. sep @ t) ys))"

fun is_substring :: "string \<Rightarrow> string \<Rightarrow> bool" where
  \<comment> \<open>\<open>k in s\<close> for two strings\<close>
  "is_substring k [] = (k = [])"
| "is_substring k (x # xs) = (take (length k) (x # xs) = k \<or> is_substring k xs)"

definition lower_case :: string where
  "lower_case = ''abcdefghijklmnopqrstuvwxyz''"

definition upper_case :: string where
  "upper_case = ''ABCDEFGHIJKLMNOPQRSTUVWXYZ''"

definition upper :: "string \<Rightarrow> string" where
  \<comment> \<open>\<open>str.upper\<close> on ASCII letters; other characters are kept\<close>
  "upper s = map (\<lambda>c. case map_of (zip lower_case upper_case) c of Some u \<Rightarrow> u | None \<Rightarrow> c) s"

definition lower :: "string \<Rightarrow> string" where
  "lower s = map (\<lambda>c. case map_of (zip upper_case lower_case) c of Some l \<Rightarrow> l | None \<Rightarrow> c) s"

subsection \<open>Numbers and their text\<close>

definition decimal_digits :: string where
  "decimal_digits = ''0123456789''"

definition digit_val :: "char \<Rightarrow> nat option" where
  "digit_val c = map_of (zip decimal_digits [0 ..< 10]) c"

definition is_digit :: "char \<Rightarrow> bool" where
  "is_digit c = (c \<in> set decimal_digits)"

definition digits_value :: "string \<Rightarrow> nat option" where
  \<comment> \<open>a nonempty run of decimal digits, single underscores allowed between digits\<close>
  "digits_value s =
     (let groups = split_on CHR ''_'' s
      in if list_all (\<lambda>g. g \<noteq> [] \<and> list_all is_digit g) groups
         then Some (foldl (\<lambda>n c. 10 * n + the (digit_val c)) 0 (concat groups))
         else None)"

definition signed_digits :: "string \<Rightarrow> (int \<times> string) option" where
  \<comment> \<open>an optional sign: its factor and the rest of the text\<close>
  "signed_digits s =
     (case s of
        [] \<Rightarrow> None
      | c # r \<Rightarrow> if c = CHR ''-'' then Some (- 1, r)
                 else if c = CHR ''+'' then Some (1, r)
                 else Some (1, s))"

definition py_int :: "string \<Rightarrow> error + int" where
  \<comment> \<open>\<open>int(s)\<close> for a string, base 10\<close>
  "py_int s =
     (case signed_digits (strip s) of
        None \<Rightarrow> Inl ValueError
      | Some (sign, r) \<Rightarrow>
          (case digits_value r of
             None \<Rightarrow> Inl ValueError
           | Some n \<Rightarrow> Inr (sign * int n)))"

definition trunc :: "real \<Rightarrow> int" where
  \<comment> \<open>\<open>int(x)\<close> for a number: the fraction is dropped, towards zero\<close>
  "trunc x = (if 0 \<le> x then \<lfloor>x\<rfloor> else \<lceil>x\<rceil>)"

text \<open>
  \<open>float_int s\<close> is the source's \<open>int(float(s))\<close>. Python's floats are modelled by the
  exact decimal value of the text, so the binary rounding of a long fraction and
  the overflow of a large exponent to infinity are left out; \<open>inf\<close> and \<open>nan\<close> are
  accepted by \<open>float\<close> and rejected by \<open>int\<close>, with different exceptions.
\<close>

definition decimal_parts :: "string \<Rightarrow> (nat \<times> nat) option" where
  \<comment> \<open>\<open>digits[.digits]\<close>, \<open>digits.\<close> or \<open>.digits\<close>: all the digits as one number, and
      how many of them follow the point\<close>
  "decimal_parts s =
     (case split_on CHR ''.'' s of
        [i] \<Rightarrow> map_option (\<lambda>n. (n, 0)) (digits_value i)
      | [i, f] \<Rightarrow>
          (if i = [] \<and> f = [] then None
           else (case (if i = [] then Some 0 else digits_value i,
                       if f = [] then Some 0 else digits_value f) of
                   (Some a, Some b) \<Rightarrow>
                     (let k = length (filter is_digit f) in Some (a * 10 ^ k + b, k))
                 | _ \<Rightarrow> None))
      | _ \<Rightarrow> None)"

definition exponent_part :: "string \<Rightarrow> (string \<times> int) option" where
  \<comment> \<open>the mantissa's text and the value of an optional \<open>e\<close> or \<open>E\<close> exponent\<close>
  "exponent_part s =
     (case split_by (\<lambda>c. c = CHR ''e'' \<or> c = CHR ''E'') s of
        [m] \<Rightarrow> Some (m, 0)
      | [m, x] \<Rightarrow>
          (case signed_digits x of
             None \<Rightarrow> None
           | Some (sign, r) \<Rightarrow> map_option (\<lambda>n. (m, sign * int n)) (digits_value r))
      | _ \<Rightarrow> None)"

definition float_int :: "string \<Rightarrow> error + int" where
  "float_int s =
     (case signed_digits (strip s) of
        None \<Rightarrow> Inl ValueError
      | Some (sign, r) \<Rightarrow>
          if lower r = ''inf'' \<or> lower r = ''infinity'' then Inl OverflowError
          else if lower r = ''nan'' then Inl ValueError
          else (case exponent_part r of
                  None \<Rightarrow> Inl ValueError
                | Some (m, e) \<Rightarrow>
                    (case decimal_parts m of
                       None \<Rightarrow> Inl ValueError
                     | Some (n, k) \<Rightarrow>
                         Inr (sign * (if int k \<le> e then int n * 10 ^ nat (e - int k)
                                      else int n div 10 ^ nat (int k - e))))))"

function str_nat :: "nat \<Rightarrow> string" where
  "str_nat n =
     (if n < 10 then [decimal_digits ! n]
      else str_nat (n div 10) @ [decimal_digits ! (n mod 10)])"
  by pat_completeness auto
termination
  by (relation "measure id") auto

declare str_nat.simps [simp del]

definition str_int :: "int \<Rightarrow> string" where
  \<comment> \<open>\<open>str(n)\<close> for an integer\<close>
  "str_int n = (if n < 0 then CHR ''-'' # str_nat (nat (- n)) else str_nat (nat n))"

definition unpack2 :: "'a list \<Rightarrow> error + 'a \<times> 'a" where
  \<comment> \<open>\<open>a, b = xs\<close>\<close>
  "unpack2 xs = (case xs of [a, b] \<Rightarrow> Inr (a, b) | _ \<Rightarrow> Inl ValueError)"

definition unpack3 :: "'a list \<Rightarrow> error + 'a \<times> 'a \<times> 'a" where
  \<comment> \<open>\<open>a, b, c = xs\<close>\<close>
  "unpack3 xs = (case xs of [a, b, c] \<Rightarrow> Inr (a, b, c) | _ \<Rightarrow> Inl ValueError)"

fun sequence :: "(error + 'a) list \<Rightarrow> error + 'a list" where
  \<comment> \<open>the items of \<open>map(f, xs)\<close> in order, up to the first that raises\<close>
  "sequence [] = Inr []"
| "sequence (m # ms) = bind m (\<lambda>x. bind (sequence ms) (\<lambda>xs. Inr (x # xs)))"

definition ints2 :: "string list \<Rightarrow> error + int \<times> int" where
  \<comment> \<open>\<open>a, b = map(int, xs)\<close>: every failure is a ValueError\<close>
  "ints2 xs = bind (sequence (map py_int xs)) unpack2"

definition ints3 :: "string list \<Rightarrow> error + int \<times> int \<times> int" where
  "ints3 xs = bind (sequence (map py_int xs)) unpack3"

subsection \<open>Decoded JSON\<close>

text \<open>
  What \<open>response.json()\<close> returns: \<open>None\<close>, booleans, numbers, strings, lists and
  dicts with string keys. A dict is an association list in insertion order whose
  keys are distinct; \<open>map_of\<close> looks a key up. The operations below are Python's,
  on every shape of value, with the exception each raises on the wrong shape.
\<close>

datatype json =
  JNull | JBool bool | JInt int | JFloat real | JStr string
  | JArr "json list" | JObj "(string \<times> json) list"

fun contains_str :: "string \<Rightarrow> json \<Rightarrow> error + bool" where
  \<comment> \<open>\<open>k in x\<close> for a string \<open>k\<close>\<close>
  "contains_str k (JObj kvs) = Inr (k \<in> set (map fst kvs))"
| "contains_str k (JArr xs) = Inr (JStr k \<in> set xs)"
| "contains_str k (JStr s) = Inr (is_substring k s)"
| "contains_str k _ = Inl TypeError"

fun getitem_str :: "json \<Rightarrow> string \<Rightarrow> error + json" where
  \<comment> \<open>\<open>x[k]\<close> for a string \<open>k\<close>\<close>
  "getitem_str (JObj kvs) k = (case map_of kvs k of None \<Rightarrow> Inl KeyError | Some v \<Rightarrow> Inr v)"
| "getitem_str _ k = Inl TypeError"

fun getitem0 :: "json \<Rightarrow> error + json" where
  \<comment> \<open>\<open>x[0]\<close>; no key of a decoded dict is the integer 0\<close>
  "getitem0 (JArr xs) = (case xs of [] \<Rightarrow> Inl IndexError | x # _ \<Rightarrow> Inr x)"
| "getitem0 (JStr s) = (case s of [] \<Rightarrow> Inl IndexError | c # _ \<Rightarrow> Inr (JStr [c]))"
| "getitem0 (JObj kvs) = Inl KeyError"
| "getitem0 _ = Inl TypeError"

fun len :: "json \<Rightarrow> error + nat" where
  "len (JArr xs) = Inr (length xs)"
| "len (JObj kvs) = Inr (length kvs)"
| "len (JStr s) = Inr (length s)"
| "len _ = Inl TypeError"

fun iter :: "json \<Rightarrow> error + json list" where
  \<comment> \<open>the items a \<open>for\<close> loop visits\<close>
  "iter (JArr xs) = Inr xs"
| "iter (JObj kvs) = Inr (map (\<lambda>kv. JStr (fst kv)) kvs)"
| "iter (JStr s) = Inr (map (\<lambda>c. JStr [c]) s)"
| "iter _ = Inl TypeError"

fun truthy :: "json \<Rightarrow> bool" where
  "truthy JNull = False"
| "truthy (JBool b) = b"
| "truthy (JInt n) = (n \<noteq> 0)"
| "truthy (JFloat x) = (x \<noteq> 0)"
| "truthy (JStr s) = (s \<noteq> [])"
| "truthy (JArr xs) = (xs \<noteq> [])"
| "truthy (JObj kvs) = (kvs \<noteq> [])"

fun dict_get :: "json \<Rightarrow> string \<Rightarrow> json \<Rightarrow> error + json" where
  \<comment> \<open>\<open>x.get(k, default)\<close>: only a dict has the method\<close>
  "dict_get (JObj kvs) k d = Inr (case map_of kvs k of None \<Rightarrow> d | Some v \<Rightarrow> v)"
| "dict_get _ k d = Inl AttributeError"

fun int_of_json :: "json \<Rightarrow> error + int" where
  \<comment> \<open>\<open>int(x)\<close>\<close>
  "int_of_json (JInt n) = Inr n"
| "int_of_json (JFloat x) = Inr (trunc x)"
| "int_of_json (JBool b) = Inr (if b then 1 else 0)"
| "int_of_json (JStr s) = py_int s"
| "int_of_json _ = Inl TypeError"

fun str_of_json :: "(json \<Rightarrow> string) \<Rightarrow> json \<Rightarrow> string" where
  \<comment> \<open>\<open>str(x)\<close>: a string is itself; the text Python prints for any other value
      (float formatting, quoting inside containers) is the parameter \<open>repr\<close>\<close>
  "str_of_json repr (JStr s) = s"
| "str_of_json repr x = repr x"

section \<open>TimeNormalizer\<close>

text \<open>
  \<open>time.mktime\<close> belongs to the runtime, not to the repository. On the board it is
  calendar arithmetic with no time zone: the days from 1970-01-01 to the civil date,
  times 86400, plus the time of day; a month outside 1..12 carries into the year.
  Timestamps are \<open>real\<close> because the clock may hand out a fractional epoch.
\<close>

definition days_from_civil :: "int \<Rightarrow> int \<Rightarrow> int \<Rightarrow> int" where
  "days_from_civil year month day =
     (let y0 = year + (month - 1) div 12;
          m = (month - 1) mod 12 + 1;
          y = (if m \<le> 2 then y0 - 1 else y0);
          era = y div 400;
          yoe = y - era * 400;
          doy = (153 * (if m > 2 then m - 3 else m + 9) + 2) div 5 + day - 1;
          doe = yoe * 365 + yoe div 4 - yoe div 100 + doy
      in era * 146097 + doe - 719468)"

definition mktime :: "int \<times> int \<times> int \<times> int \<times> int \<times> int \<Rightarrow> real" where
  "mktime t =
     (case t of (year, month, day, hour, minute, second) \<Rightarrow>
        real_of_int (days_from_civil year month day * 86400 + hour * 3600 + minute * 60 + second))"

datatype time_response =
  Epoch real                                       \<comment> \<open>an \<open>int\<close> or a \<open>float\<close>\<close>
  | StructTime "int \<times> int \<times> int \<times> int \<times> int \<times> int"  \<comment> \<open>the fields \<open>mktime\<close> reads\<close>
  | TimeText string
  | OtherResponse

definition slice :: "nat \<Rightarrow> nat \<Rightarrow> string \<Rightarrow> string" where
  \<comment> \<open>\<open>s[i:j]\<close> for \<open>0 \<le> i \<le> j\<close>\<close>
  "slice i j s = take (j - i) (drop i s)"

definition index0 :: "'a list \<Rightarrow> nat \<Rightarrow> error + 'a" where
  \<comment> \<open>\<open>xs[i]\<close> for \<open>i \<ge> 0\<close>\<close>
  "index0 xs i = (if i < length xs then Inr (xs ! i) else Inl IndexError)"

definition parse_time_text :: "string \<Rightarrow> error + real" where
  \<comment> \<open>the body of the \<open>try\<close> in \<open>get_current_time_utc\<close>\<close>
  "parse_time_text time_response =
     (let parts = split_ws time_response in
      bind (index0 parts 0) (\<lambda>date_str.
      bind (index0 parts 1) (\<lambda>time_str.
      bind (if length parts > 4 then index0 parts 4 else Inr ''+0000'') (\<lambda>tz_offset_str.
      bind (ints3 (split_on CHR ''-'' date_str)) (\<lambda>(year, month, day).
      bind (unpack3 (split_on CHR '':'' time_str)) (\<lambda>(hour, minute, second_float).
      bind (py_int hour) (\<lambda>hour.
      bind (py_int minute) (\<lambda>minute.
      bind (float_int second_float) (\<lambda>second.
      let local_time = mktime (year, month, day, hour, minute, second) in
      bind (index0 tz_offset_str 0) (\<lambda>c.
      let tz_sign = (if c = CHR ''+'' then 1 else - 1) in
      bind (py_int (slice 1 3 tz_offset_str)) (\<lambda>tz_hours.
      bind (py_int (slice 3 5 tz_offset_str)) (\<lambda>tz_minutes.
      let tz_offset_seconds = tz_sign * (tz_hours * 3600 + tz_minutes * 60)
      in Inr (local_time - real_of_int tz_offset_seconds)))))))))))))"

definition get_current_time_utc :: "error + time_response \<Rightarrow> real \<Rightarrow> error + real" where
  \<comment> \<open>\<open>get_local_time\<close> is what \<open>self.network.get_local_time()\<close> does (it may raise),
      \<open>host_time\<close> what \<open>time.time()\<close> would return\<close>
  "get_current_time_utc get_local_time host_time =
     bind get_local_time (\<lambda>time_response.
       case time_response of
         Epoch t \<Rightarrow> Inr t
       | StructTime f \<Rightarrow> Inr (mktime f)
       | TimeText s \<Rightarrow>
           (case parse_time_text s of
              Inr t \<Rightarrow> Inr t
            | Inl e \<Rightarrow> if e = ValueError \<or> e = IndexError then Inr host_time else Inl e)
       | OtherResponse \<Rightarrow> Inr host_time)"

definition parse_iso8601_to_utc :: "string \<Rightarrow> error + real" where
  "parse_iso8601_to_utc time_str =
     bind (if CHR ''+'' \<in> set time_str
           then bind (unpack2 (rsplit1 CHR ''+'' time_str)) (\<lambda>(dt_part, tz_part).
                  Inr (dt_part, tz_part, 1))
           else (let parts = rsplit1 CHR ''-'' time_str in
                 bind (index0 parts 0) (\<lambda>dt_part.
                 bind (if length parts > 1
                       then bind (index0 parts 1) (\<lambda>p.
                              Inr (if CHR '':'' \<in> set p then p else ''00:00''))
                       else Inr ''00:00'') (\<lambda>tz_part.
                 Inr (dt_part, tz_part, - 1)))))
       (\<lambda>(dt_part, tz_part, tz_sign).
     bind (unpack2 (split_on CHR ''T'' dt_part)) (\<lambda>(date_part, time_part).
     bind (ints3 (split_on CHR ''-'' date_part)) (\<lambda>(year, month, day).
     bind (ints3 (split_on CHR '':'' time_part)) (\<lambda>(hour, minute, second).
     bind (ints2 (split_on CHR '':'' tz_part)) (\<lambda>(tz_hours, tz_minutes).
     let tz_offset_seconds = tz_sign * (tz_hours * 3600 + tz_minutes * 60);
         local_timestamp = mktime (year, month, day, hour, minute, second);
         utc_timestamp = local_timestamp - real_of_int tz_offset_seconds
     in Inr utc_timestamp)))))"

fun parse_time_field :: "json \<Rightarrow> error + real" where
  \<comment> \<open>\<open>parse_iso8601_to_utc\<close> on whatever the feed put under \<open>time\<close>: the membership
      test rejects a scalar, \<open>rsplit\<close> is missing on a list or a dict\<close>
  "parse_time_field (JStr s) = parse_iso8601_to_utc s"
| "parse_time_field (JArr xs) = Inl AttributeError"
| "parse_time_field (JObj kvs) = Inl AttributeError"
| "parse_time_field _ = Inl TypeError"

section \<open>ScheduleAggregator\<close>

record 'r train =
  route :: 'r
  minutes_until :: int
  time :: json

record schedule =
  northbound :: "json train list"
  southbound :: "json train list"

definition empty_schedule :: schedule where
  "empty_schedule = \<lparr>northbound = [], southbound = []\<rparr>"

definition eta_minutes :: "real \<Rightarrow> real \<Rightarrow> int" where
  \<comment> \<open>\<open>int((train_utc - current_utc) / 60)\<close>\<close>
  "eta_minutes train_utc current_utc = trunc ((train_utc - current_utc) / 60)"

definition process_train :: "real \<Rightarrow> int \<Rightarrow> json \<Rightarrow> error + json train list" where
  \<comment> \<open>one pass of the loop body: the trains it appends\<close>
  "process_train current_utc min_minutes tr =
     bind (getitem_str tr ''time'') (\<lambda>t.
     bind (parse_time_field t) (\<lambda>train_utc.
     let minutes = eta_minutes train_utc current_utc in
     if minutes > min_minutes
     then bind (getitem_str tr ''route'') (\<lambda>r.
          bind (getitem_str tr ''time'') (\<lambda>t'.
          Inr [\<lparr>route = r, minutes_until = minutes, time = t'\<rparr>]))
     else Inr []))"

fun process_trains :: "real \<Rightarrow> int \<Rightarrow> json list \<Rightarrow> error + json train list" where
  "process_trains current_utc min_minutes [] = Inr []"
| "process_trains current_utc min_minutes (tr # trs) =
     bind (process_train current_utc min_minutes tr) (\<lambda>kept.
     bind (process_trains current_utc min_minutes trs) (\<lambda>rest. Inr (kept @ rest)))"

definition process_direction :: "real \<Rightarrow> int \<Rightarrow> json \<Rightarrow> string \<Rightarrow> error + json train list" where
  \<comment> \<open>\<open>if key in station_data: for train in station_data[key]: ...\<close>\<close>
  "process_direction current_utc min_minutes station_data key =
     bind (contains_str key station_data) (\<lambda>present.
     if present
     then bind (getitem_str station_data key) (\<lambda>trains.
          bind (iter trains) (process_trains current_utc min_minutes))
     else Inr [])"

definition parse_train_times ::
  "error + time_response \<Rightarrow> real \<Rightarrow> json \<Rightarrow> int \<Rightarrow> error + schedule" where
  "parse_train_times get_local_time host_time json_response min_minutes =
     bind (get_current_time_utc get_local_time host_time) (\<lambda>current_utc.
     bind (contains_str ''data'' json_response) (\<lambda>present.
     if \<not> present then Inr empty_schedule
     else bind (getitem_str json_response ''data'') (\<lambda>data.
          bind (len data) (\<lambda>n.
          if n = 0 then Inr empty_schedule
          else bind (getitem0 data) (\<lambda>station_data.
               bind (process_direction current_utc min_minutes station_data ''N'') (\<lambda>north.
               bind (process_direction current_utc min_minutes station_data ''S'') (\<lambda>south.
               Inr \<lparr>northbound = north, southbound = south\<rparr>)))))))"

text \<open>
  \<open>get_next_trains_by_route\<close> keeps, per route, the first ETA of each direction. The
  dict is an association list in insertion order; routes are of any type with
  equality here, the caller's being strings.
\<close>

fun set_first ::
  "bool \<Rightarrow> 'r \<Rightarrow> int \<Rightarrow> ('r \<times> int option \<times> int option) list
     \<Rightarrow> ('r \<times> int option \<times> int option) list" where
  \<comment> \<open>\<open>if route not in routes: routes[route] = {None, None}\<close>, then the direction's
      entry is set if it is still \<open>None\<close>\<close>
  "set_first north r m [] = [(r, if north then (Some m, None) else (None, Some m))]"
| "set_first north r m ((k, n, s) # kvs) =
     (if k = r
      then (k, if north then (case n of None \<Rightarrow> Some m | Some v \<Rightarrow> Some v) else n,
               if north then s else (case s of None \<Rightarrow> Some m | Some v \<Rightarrow> Some v)) # kvs
      else (k, n, s) # set_first north r m kvs)"

definition get_next_trains_by_route ::
  "'r train list \<Rightarrow> 'r train list \<Rightarrow> ('r \<times> int option \<times> int option) list" where
  "get_next_trains_by_route north south =
     foldl (\<lambda>routes t. set_first False (route t) (minutes_until t) routes)
       (foldl (\<lambda>routes t. set_first True (route t) (minutes_until t) routes) [] north)
       south"

section \<open>ScrollCompositor\<close>

fun append_time :: "'r \<Rightarrow> int \<Rightarrow> ('r \<times> int list) list \<Rightarrow> ('r \<times> int list) list" where
  \<comment> \<open>\<open>if route not in route_times: route_times[route] = []\<close>, then
      \<open>route_times[route].append(mins)\<close>\<close>
  "append_time r m [] = [(r, [m])]"
| "append_time r m ((k, ms) # kvs) =
     (if k = r then (k, ms @ [m]) # kvs else (k, ms) # append_time r m kvs)"

definition group_times :: "'r train list \<Rightarrow> ('r \<times> int list) list" where
  \<comment> \<open>the dict \<open>route_times\<close> after the loop over the trains\<close>
  "group_times trains = foldl (\<lambda>d t. append_time (route t) (minutes_until t) d) [] trains"

definition format_train_text_with_badges ::
  "('r::linorder) train list \<Rightarrow> ('r \<times> string) list" where
  \<comment> \<open>\<open>sorted(route_times.keys())\<close> visits the entries in the order of their keys;
      the unused parameter \<open>direction\<close> is left out\<close>
  "format_train_text_with_badges trains =
     (if trains = [] then []
      else map (\<lambda>(route, times). (route, join '','' (map str_int (take 3 times))))
             (sort_key fst (group_times trains)))"

record weather =
  description :: string
  temp_f :: int

fun string_route :: "json train \<Rightarrow> error + string train" where
  "string_route t =
     (case route t of
        JStr r \<Rightarrow> Inr \<lparr>route = r, minutes_until = minutes_until t, time = time t\<rparr>
      | _ \<Rightarrow> Inl TypeError)"

definition string_routes :: "json train list \<Rightarrow> error + string train list" where
  \<comment> \<open>a route that is not a string is not displayed: it cannot be hashed or ordered
      in \<open>format_train_text_with_badges\<close>, or \<open>len(route)\<close> fails in
      \<open>create_route_badge\<close>, a TypeError in each case\<close>
  "string_routes ts = sequence (map string_route ts)"

definition line_width :: "string \<Rightarrow> (string \<times> string) list \<Rightarrow> int" where
  \<comment> \<open>\<open>x_offset\<close> after the label and the badges: 6 pixels a character, 15 a badge\<close>
  "line_width label data =
     foldl (\<lambda>x_offset (route, times). x_offset + 15 + (int (length times) * 6 + 6))
       (int (length label) * 6) data"

definition south_line_width :: "(string \<times> string) list \<Rightarrow> weather option \<Rightarrow> int" where
  "south_line_width south_data w =
     line_width ''Downtown: '' south_data +
     (case w of
        None \<Rightarrow> 0
      | Some w \<Rightarrow> 12 + int (length (str_int (temp_f w))) * 6 + 4 + int (length ''F'') * 6)"

definition north_line_width :: "(string \<times> string) list \<Rightarrow> weather option \<Rightarrow> int" where
  "north_line_width north_data w =
     line_width ''Uptown: '' north_data +
     (case w of None \<Rightarrow> 0 | Some w \<Rightarrow> 12 + int (length (description w)) * 6)"

definition create_scrolling_display ::
  "error option \<Rightarrow> nat \<Rightarrow> schedule \<Rightarrow> weather option \<Rightarrow> error + int \<times> int \<times> nat" where
  \<comment> \<open>the widths and the frame width that the function returns; \<open>render_fault\<close> is an
      exception of the display library, if it raises one while the scene is built\<close>
  "create_scrolling_display render_fault width trains w =
     bind (string_routes (northbound trains)) (\<lambda>north.
     bind (string_routes (southbound trains)) (\<lambda>south.
     let north_data = format_train_text_with_badges north;
         south_data = format_train_text_with_badges south
     in case render_fault of
          Some e \<Rightarrow> Inl e
        | None \<Rightarrow> Inr (north_line_width north_data w, south_line_width south_data w, width)))"

definition scroll_tick :: "int \<Rightarrow> nat \<Rightarrow> int \<Rightarrow> int" where
  \<comment> \<open>one line, one tick: \<open>position -= 1\<close>, then the jump back to the right edge\<close>
  "scroll_tick width display_width position =
     (let position = position - 1
      in if position \<le> - width then int display_width else position)"

fun scroll_loop :: "nat \<Rightarrow> int \<Rightarrow> int \<Rightarrow> nat \<Rightarrow> int \<times> int \<Rightarrow> (int \<times> int) list" where
  \<comment> \<open>\<open>for i in range(n)\<close>: the pairs assigned to \<open>north_group.x\<close> and
      \<open>south_group.x\<close>, tick by tick\<close>
  "scroll_loop 0 north_width south_width display_width p = []"
| "scroll_loop (Suc i) north_width south_width display_width (north_position, south_position) =
     (let north_position = scroll_tick north_width display_width north_position;
          south_position = scroll_tick south_width display_width south_position
      in (north_position, south_position)
         # scroll_loop i north_width south_width display_width (north_position, south_position))"

section \<open>Weather\<close>

definition capitalize_word :: "string \<Rightarrow> string" where
  \<comment> \<open>\<open>word[0].upper() + word[1:].lower() if len(word) > 1 else word[0].upper()\<close>,
      for a nonempty word\<close>
  "capitalize_word word =
     (if length word > 1 then upper (take 1 word) @ lower (drop 1 word) else upper (take 1 word))"

definition capitalize_words :: "string \<Rightarrow> string" where
  "capitalize_words d =
     join '' '' (map capitalize_word (filter (\<lambda>word. length word > 0) (split_on CHR '' '' d)))"

definition fetch_weather_body ::
  "json \<Rightarrow> error + json \<Rightarrow> (json \<Rightarrow> string) \<Rightarrow> error + weather" where
  \<comment> \<open>the body of the \<open>try\<close>: \<open>secrets\<close> is \<open>self.secrets\<close>, \<open>response\<close> what
      \<open>self.network.fetch(url)\<close> followed by \<open>response.json()\<close> does\<close>
  "fetch_weather_body secrets response repr =
     bind (dict_get secrets ''openweather_key'' JNull) (\<lambda>api_key.
     if \<not> truthy api_key then Inr \<lparr>description = ''No API Key'', temp_f = 0\<rparr>
     else
     bind response (\<lambda>data.
     bind (dict_get data ''weather'' (JArr [JObj []])) (\<lambda>weather_list.
     bind (if truthy weather_list
           then bind (len weather_list) (\<lambda>n. Inr (n > 0)) else Inr False) (\<lambda>nonempty.
     bind (if nonempty
           then bind (getitem0 weather_list) (\<lambda>first.
                bind (dict_get first ''description'' (JStr ''Unknown'')) (\<lambda>d.
                Inr (capitalize_words (str_of_json repr d))))
           else Inr ''Unknown'') (\<lambda>description.
     bind (dict_get data ''main'' (JObj [])) (\<lambda>main.
     bind (dict_get main ''temp'' (JInt 0)) (\<lambda>temp.
     bind (int_of_json temp) (\<lambda>temp_f.
     Inr \<lparr>description = description, temp_f = temp_f\<rparr>))))))))"

definition fetch_weather_data ::
  "json \<Rightarrow> error + json \<Rightarrow> (json \<Rightarrow> string) \<Rightarrow> error + weather" where
  \<comment> \<open>\<open>except Exception\<close> takes every exception of the body\<close>
  "fetch_weather_data secrets response repr =
     (case fetch_weather_body secrets response repr of
        Inr w \<Rightarrow> Inr w
      | Inl e \<Rightarrow> Inr \<lparr>description = ''Unknown'', temp_f = 0\<rparr>)"

section \<open>SessionLifecycle: the main loop\<close>

text \<open>
  The loop never returns, so it is a step function on the state of the session: one
  step is one pass of \<open>while True\<close> (or one \<open>time.sleep(3600)\<close> of the inner loop,
  once the session is dormant). What the world does during a pass is the \<open>environment\<close>
  of that pass. The \<open>trace\<close> records what the session did, in order.
\<close>

datatype session_state = Active | Dormant

datatype screen = SplashScreen | TrainScreen | BlankScreen

datatype event =
  WeatherFetch | TrainFetch | TimeFetch
  | DisplayUpdate screen       \<comment> \<open>\<open>display.root_group = ...\<close> and \<open>display.refresh()\<close>\<close>
  | Scrolled "int \<times> int"       \<comment> \<open>one tick: both \<open>x\<close> set, then \<open>time.sleep(0.1)\<close>\<close>
  | Logged error               \<comment> \<open>\<open>print(f"Error: {e}")\<close>\<close>
  | Slept real                 \<comment> \<open>\<open>time.sleep\<close> of so many seconds\<close>

record environment =
  monotonic :: real                          \<comment> \<open>\<open>time.monotonic()\<close> at the top of the pass\<close>
  secrets :: json
  weather_response :: "error + json"
  train_response :: "error + json"           \<comment> \<open>what \<open>fetch_train_data\<close> does\<close>
  local_time :: "error + time_response"
  host_time :: real
  render_fault :: "error option"
  repr :: "json \<Rightarrow> string"

record session =
  mode :: session_state
  startup_time :: real
  last_weather_update :: real
  weather :: weather
  north_group :: "int option"                \<comment> \<open>\<open>None\<close>, or the group with its \<open>x\<close>\<close>
  south_group :: "int option"
  north_width :: int
  south_width :: int
  display_width :: nat
  root_group :: screen
  brightness :: real
  trace :: "event list"

definition record_events :: "event list \<Rightarrow> session \<Rightarrow> session" where
  "record_events es s = s\<lparr>trace := trace s @ es\<rparr>"

definition go_dormant :: "session \<Rightarrow> session" where
  \<comment> \<open>blank group shown, brightness 0, then the sleep loop\<close>
  "go_dormant s =
     record_events [DisplayUpdate BlankScreen]
       (s\<lparr>root_group := BlankScreen, brightness := 0, mode := Dormant\<rparr>)"

definition refresh_weather :: "environment \<Rightarrow> real \<Rightarrow> session \<Rightarrow> error option \<times> session" where
  "refresh_weather env current_time s =
     (if current_time - last_weather_update s \<ge> 600
      then (case fetch_weather_data (secrets env) (weather_response env) (repr env) of
              Inl e \<Rightarrow> (Some e, record_events [WeatherFetch] s)
            | Inr w \<Rightarrow>
                (None, record_events [WeatherFetch]
                         (s\<lparr>weather := w, last_weather_update := current_time\<rparr>)))
      else (None, s))"

definition animate :: "session \<Rightarrow> session" where
  \<comment> \<open>both positions start at 0; 600 ticks\<close>
  "animate s =
     (let frames = scroll_loop 600 (north_width s) (south_width s) (display_width s) (0, 0)
      in record_events (map Scrolled frames)
           (s\<lparr>north_group := Some (fst (last frames)), south_group := Some (snd (last frames))\<rparr>))"

definition refresh_trains :: "environment \<Rightarrow> session \<Rightarrow> error option \<times> session" where
  "refresh_trains env s =
     (let s = record_events [TrainFetch] s in
      case train_response env of
        Inl e \<Rightarrow> (Some e, s)
      | Inr train_data \<Rightarrow>
          (let s = record_events [TimeFetch] s in
           case parse_train_times (local_time env) (host_time env) train_data 5 of
             Inl e \<Rightarrow> (Some e, s)
           | Inr trains \<Rightarrow>
               (let s = (if north_group s = None then s
                         else s\<lparr>north_group := None, south_group := None\<rparr>) in
                case create_scrolling_display (render_fault env) (display_width s) trains
                       (Some (weather s)) of
                  Inl e \<Rightarrow> (Some e, s)
                | Inr (nw, sw, dw) \<Rightarrow>
                    (None, animate
                       (record_events [DisplayUpdate TrainScreen]
                          (s\<lparr>north_group := Some 0, south_group := Some 0,
                             north_width := nw, south_width := sw, display_width := dw,
                             root_group := TrainScreen\<rparr>))))))"

definition cycle :: "environment \<Rightarrow> session \<Rightarrow> error option \<times> session" where
  \<comment> \<open>the body of the \<open>try\<close>: the exception it ends with, if any, and the state then\<close>
  "cycle env s =
     (let current_time = monotonic env in
      if current_time - startup_time s \<ge> 20 * 60 then (None, go_dormant s)
      else (case refresh_weather env current_time s of
              (Some e, s) \<Rightarrow> (Some e, s)
            | (None, s) \<Rightarrow> refresh_trains env s))"

definition step :: "environment \<Rightarrow> session \<Rightarrow> session" where
  "step env s =
     (case mode s of
        Dormant \<Rightarrow> record_events [Slept 3600] s
      | Active \<Rightarrow>
          (case cycle env s of
             (None, s) \<Rightarrow> s
           | (Some e, s) \<Rightarrow> record_events [Logged e, Slept 10] s))"


definition start :: "real \<Rightarrow> weather \<Rightarrow> real \<Rightarrow> nat \<Rightarrow> session" where
  \<comment> \<open>the state on entry to the loop: the splash screen is shown, the first weather
      has been fetched\<close>
  "start t0 w t1 width =
     \<lparr>mode = Active, startup_time = t0, last_weather_update = t1, weather = w,
      north_group = None, south_group = None, north_width = 0, south_width = 0,
      display_width = width, root_group = SplashScreen, brightness = 1,
      trace = [DisplayUpdate SplashScreen, Slept 2, WeatherFetch]\<rparr>"

definition loop_variables ::
  "session \<Rightarrow> real \<times> real \<times> weather \<times> int option \<times> int option \<times> int \<times> int \<times> nat" where
  \<comment> \<open>every variable of the main program that the loop reads or assigns\<close>
  "loop_variables s =
     (startup_time s, last_weather_update s, weather s, north_group s, south_group s,
      north_width s, south_width s, display_width s)"

definition scrolled :: "event list \<Rightarrow> (int \<times> int) list" where
  \<comment> \<open>the positions shown, tick by tick, in a trace\<close>
  "scrolled es = concat (map (\<lambda>e. case e of Scrolled f \<Rightarrow> [f] | _ \<Rightarrow> []) es)"

definition calm :: environment where
  "calm = \<lparr>monotonic = 100, secrets = JObj [], weather_response = Inr (JObj []),
           train_response = Inr (JObj []), local_time = Inr (Epoch 0), host_time = 0,
           render_fault = None, repr = (\<lambda>x. [])\<rparr>"


definition offline :: environment where
  "offline = calm\<lparr>train_response := Inl OSError\<rparr>"

definition local_epoch :: "string list \<Rightarrow> error + real" where
  \<comment> \<open>the spec's local epoch of a clock text: the date token and the time token,
      fractional seconds truncated, by calendar arithmetic\<close>
  "local_epoch parts =
     bind (index0 parts 0) (\<lambda>date_str.
     bind (index0 parts 1) (\<lambda>time_str.
     bind (ints3 (split_on CHR ''-'' date_str)) (\<lambda>(year, month, day).
     bind (unpack3 (split_on CHR '':'' time_str)) (\<lambda>(hour, minute, second_float).
     bind (py_int hour) (\<lambda>hour.
     bind (py_int minute) (\<lambda>minute.
     bind (float_int second_float) (\<lambda>second.
     Inr (mktime (year, month, day, hour, minute, second)))))))))"

text \<open>
  The words of the spec for the aggregation, to compare \<open>parse_train_times\<close> with:
  an arrival record carries a route and a time that parses; its ETA is counted from
  the canonical time; the schedule keeps, in order, the records whose ETA exceeds the
  threshold.
\<close>

definition arrival_record :: "json \<Rightarrow> bool" where
  "arrival_record tr =
     (case tr of
        JObj kvs \<Rightarrow>
          (case (map_of kvs ''route'', map_of kvs ''time'') of
             (Some r, Some (JStr t)) \<Rightarrow>
               (case parse_iso8601_to_utc t of Inr u \<Rightarrow> True | Inl e \<Rightarrow> False)
           | _ \<Rightarrow> False)
      | _ \<Rightarrow> False)"

definition field :: "json \<Rightarrow> string \<Rightarrow> json" where
  "field tr k = (case getitem_str tr k of Inr v \<Rightarrow> v | Inl e \<Rightarrow> JNull)"

definition scheduled_at :: "json \<Rightarrow> real" where
  "scheduled_at tr = (case parse_time_field (field tr ''time'') of Inr u \<Rightarrow> u | Inl e \<Rightarrow> 0)"

definition normalized_arrival :: "real \<Rightarrow> json \<Rightarrow> json train" where
  "normalized_arrival now tr =
     \<lparr>route = field tr ''route'', minutes_until = eta_minutes (scheduled_at tr) now,
      time = field tr ''time''\<rparr>"

definition filter_and_group :: "real \<Rightarrow> int \<Rightarrow> json list \<Rightarrow> json train list" where
  "filter_and_group now min_minutes trs =
     map (normalized_arrival now)
       (filter (\<lambda>tr. eta_minutes (scheduled_at tr) now > min_minutes) trs)"

definition records :: "(string \<times> json) list \<Rightarrow> string \<Rightarrow> json list option" where
  \<comment> \<open>the records of a direction in the station's data; none if the key is absent\<close>
  "records station key =
     (case map_of station key of
        None \<Rightarrow> Some []
      | Some (JArr trs) \<Rightarrow> Some trs
      | Some _ \<Rightarrow> None)"

definition feed_at_now :: json where
  \<comment> \<open>two northbound arrivals, 361 and 300 seconds after 2026-01-07T19:33:01Z\<close>
  "feed_at_now =
     JObj [(''data'', JArr [JObj
       [(''N'', JArr [JObj [(''route'', JStr ''A''), (''time'', JStr ''2026-01-07T14:39:02-05:00'')],
                      JObj [(''route'', JStr ''C''), (''time'', JStr ''2026-01-07T14:38:01-05:00'')]]),
        (''S'', JArr [])]])]"

definition times_of :: "('r \<times> int list) list \<Rightarrow> 'r \<Rightarrow> int list" where
  \<comment> \<open>the list under a key of \<open>route_times\<close>, empty if the key is not there yet\<close>
  "times_of d k = (case map_of d k of None \<Rightarrow> [] | Some ms \<Rightarrow> ms)"

definition rush_hour :: "string train list" where
  \<comment> \<open>five qualifying arrivals, four of them of route C\<close>
  "rush_hour =
     [\<lparr>route = ''C'', minutes_until = 6, time = JNull\<rparr>,
      \<lparr>route = ''A'', minutes_until = 7, time = JNull\<rparr>,
      \<lparr>route = ''C'', minutes_until = 9, time = JNull\<rparr>,
      \<lparr>route = ''C'', minutes_until = 12, time = JNull\<rparr>,
      \<lparr>route = ''C'', minutes_until = 15, time = JNull\<rparr>]"

section \<open>The scroll lines\<close>

lemma tick_run: "- W < p - int j \<Longrightarrow> (scroll_tick W F ^^ j) p = p - int j"
proof (induction j)
  case 0 then show ?case by simp
next
  case (Suc j)
  then have "(scroll_tick W F ^^ j) p = p - int j" by simp
  then have "(scroll_tick W F ^^ Suc j) p = scroll_tick W F (p - int j)" by simp
  also have "\<dots> = p - int (Suc j)" using Suc.prems by (simp add: scroll_tick_def)
  finally show ?case .
qed

lemma tick_wrap:
  assumes "- W < p"
  shows "(scroll_tick W F ^^ nat (p + W)) p = int F"
proof -
  obtain j where j: "nat (p + W) = Suc j" using assms by (cases "nat (p + W)") auto
  then have pj: "p - int j = 1 - W" using assms by linarith
  then have "(scroll_tick W F ^^ j) p = 1 - W" using tick_run [of W p j F] by simp
  then have "(scroll_tick W F ^^ Suc j) p = scroll_tick W F (1 - W)" by simp
  also have "\<dots> = int F" by (simp add: scroll_tick_def)
  finally show ?thesis unfolding j .
qed

lemma tick_period:
  assumes "- W < p" "p \<le> int F"
  shows "(scroll_tick W F ^^ nat (W + int F)) p = p"
proof -
  have parts: "nat (W + int F) = nat (int F - p) + nat (p + W)" using assms by linarith
  have "(scroll_tick W F ^^ nat (W + int F)) p = (scroll_tick W F ^^ nat (int F - p)) (int F)"
    unfolding parts funpow_add using tick_wrap [OF assms(1), of F] by simp
  also have "\<dots> = int F - int (nat (int F - p))" using assms by (intro tick_run) simp
  also have "\<dots> = p" using assms by simp
  finally show ?thesis .
qed

lemma tick_range:
  assumes "0 < W" "- W < p" "p \<le> int F"
  shows "- W < scroll_tick W F p \<and> scroll_tick W F p \<le> int F"
  using assms by (auto simp: scroll_tick_def Let_def)

lemma reachable_range:
  assumes "0 < W"
  shows "- W < (scroll_tick W F ^^ k) 0 \<and> (scroll_tick W F ^^ k) 0 \<le> int F"
proof (induction k)
  case 0 show ?case using assms by simp
next
  case (Suc k)
  show ?case
    using tick_range [OF assms, where p = "(scroll_tick W F ^^ k) 0" and F = F] Suc by simp
qed

text \<open>
  C7. A tick moves a line one pixel to the left, and a line that has reached \<open>- W\<close>
  re-enters at the frame width \<open>F\<close>. For content of width \<open>W > 0\<close>, every position
  that the line reaches from its start at 0 comes back after \<open>W + F\<close> ticks, so the
  two positions are congruent modulo \<open>W + F\<close>.
\<close>

theorem scroll_wraparound:
  assumes "0 < W"
  shows "scroll_tick W F q = (if q - 1 \<le> - W then int F else q - 1) \<and>
         (scroll_tick W F ^^ nat (W + int F)) ((scroll_tick W F ^^ k) 0)
           = (scroll_tick W F ^^ k) 0 \<and>
         (scroll_tick W F ^^ nat (W + int F)) ((scroll_tick W F ^^ k) 0) mod (W + int F)
           = (scroll_tick W F ^^ k) 0 mod (W + int F)"
proof -
  have "scroll_tick W F q = (if q - 1 \<le> - W then int F else q - 1)"
    by (simp add: scroll_tick_def)
  moreover have "(scroll_tick W F ^^ nat (W + int F)) ((scroll_tick W F ^^ k) 0)
                   = (scroll_tick W F ^^ k) 0"
    using reachable_range [OF assms, where F = F and k = k] by (intro tick_period) auto
  ultimately show ?thesis by simp
qed

theorem scroll_wraparound_witness:
  "(0::int) < 3 \<and> scroll_tick 3 2 (- 2) = 2 \<and>
   (scroll_tick 3 2 ^^ 5) ((scroll_tick 3 2 ^^ 4) 0) = (scroll_tick 3 2 ^^ 4) 0 \<and>
   (scroll_tick 3 2 ^^ 4) 0 = 1"
  using scroll_wraparound [where W = 3 and q = "- 2" and F = 2 and k = 4]
  by (simp add: scroll_tick_def eval_nat_numeral)

lemma scroll_loop_nth:
  "k < n \<Longrightarrow> scroll_loop n nw sw dw (a, b) ! k
     = ((scroll_tick nw dw ^^ Suc k) a, (scroll_tick sw dw ^^ Suc k) b)"
proof (induction n arbitrary: a b k)
  case 0 then show ?case by simp
next
  case (Suc n)
  show ?case
  proof (cases k)
    case 0 then show ?thesis by (simp add: Let_def)
  next
    case (Suc j)
    then have "j < n" using Suc.prems by simp
    from Suc.IH [OF this] show ?thesis using Suc by (simp add: Let_def funpow_swap1)
  qed
qed

lemma scroll_loop_in_phase:
  assumes "k < n" "int k + 1 < nw" "int k + 1 < sw"
  shows "scroll_loop n nw sw dw (0, 0) ! k = (- (int k + 1), - (int k + 1))"
proof -
  have "(scroll_tick nw dw ^^ Suc k) 0 = 0 - int (Suc k)"
    using assms by (intro tick_run) simp
  moreover have "(scroll_tick sw dw ^^ Suc k) 0 = 0 - int (Suc k)"
    using assms by (intro tick_run) simp
  ultimately show ?thesis using scroll_loop_nth [OF assms(1)] by simp
qed

lemma foldl_width_ge:
  "x \<le> foldl (\<lambda>x_offset (route, times). x_offset + 15 + (int (length times) * 6 + 6)) x data"
proof (induction data arbitrary: x)
  case Nil show ?case by simp
next
  case (Cons d data)
  obtain r t where d: "d = (r, t)" by (cases d)
  have "x \<le> x + 15 + (int (length t) * 6 + 6)" by simp
  also have "\<dots> \<le> foldl (\<lambda>x_offset (route, times). x_offset + 15 + (int (length times) * 6 + 6))
                      (x + 15 + (int (length t) * 6 + 6)) data"
    by (rule Cons.IH)
  finally show ?case by (simp add: d)
qed

lemma line_width_ge: "int (length label) * 6 \<le> line_width label data"
  unfolding line_width_def by (rule foldl_width_ge)

lemma north_line_width_ge: "48 \<le> north_line_width data w"
  using line_width_ge [of "''Uptown: ''" data]
  by (cases w) (simp_all add: north_line_width_def)

lemma south_line_width_ge: "60 \<le> south_line_width data w"
  using line_width_ge [of "''Downtown: ''" data]
  by (cases w) (simp_all add: south_line_width_def)

lemma create_scrolling_display_widths:
  assumes "create_scrolling_display f dw trains w = Inr (nw, sw, dw')"
  shows "48 \<le> nw \<and> 60 \<le> sw \<and> dw' = dw"
  using assms north_line_width_ge south_line_width_ge
  by (auto simp: create_scrolling_display_def bind_def Let_def split: sum.splits option.splits)

lemma scrolled_append: "scrolled (xs @ ys) = scrolled xs @ scrolled ys"
  by (simp add: scrolled_def)

lemma scrolled_frames: "scrolled (map Scrolled fs) = fs"
  by (induction fs) (simp_all add: scrolled_def)

lemma animate_trace:
  "trace (animate s) = trace s @ map Scrolled (scroll_loop 600 (north_width s) (south_width s) (display_width s) (0, 0))"
    "north_width (animate s) = north_width s"
    "south_width (animate s) = south_width s"
    "display_width (animate s) = display_width s"
  by (simp_all add: animate_def record_events_def Let_def)

lemma refresh_weather_ok:
  assumes "refresh_weather env t s = (None, s1)"
  shows "scrolled (trace s1) = scrolled (trace s)"
  using assms
  by (auto simp: refresh_weather_def record_events_def scrolled_def split: if_splits sum.splits)

lemma refresh_weather_groups:
  "refresh_weather env t (s\<lparr>north_group := a, south_group := b\<rparr>)
     = (fst (refresh_weather env t s), (snd (refresh_weather env t s))\<lparr>north_group := a, south_group := b\<rparr>)"
  by (auto simp: refresh_weather_def record_events_def split: if_splits sum.splits)

lemma refresh_trains_ok:
  assumes "refresh_trains env s = (None, s')"
  obtains train_data trains nw sw where
    "train_response env = Inr train_data"
    "parse_train_times (local_time env) (host_time env) train_data 5 = Inr trains"
    "create_scrolling_display (render_fault env) (display_width s) trains (Some (weather s))
       = Inr (nw, sw, display_width s)"
    "s' = animate (s\<lparr>north_group := Some 0, south_group := Some 0, north_width := nw,
                       south_width := sw, root_group := TrainScreen,
                       trace := trace s @ [TrainFetch, TimeFetch, DisplayUpdate TrainScreen]\<rparr>)"
proof (cases "train_response env")
  case (Inl e)
  with assms show ?thesis by (simp add: refresh_trains_def Let_def)
next
  case fetched: (Inr train_data)
  show ?thesis
  proof (cases "parse_train_times (local_time env) (host_time env) train_data 5")
    case (Inl e)
    with assms fetched show ?thesis by (simp add: refresh_trains_def Let_def)
  next
    case parsed: (Inr trains)
    show ?thesis
    proof (cases "create_scrolling_display (render_fault env) (display_width s) trains
                    (Some (weather s))")
      case (Inl e)
      with assms fetched parsed show ?thesis
        by (simp add: refresh_trains_def Let_def record_events_def split: if_splits)
    next
      case (Inr r)
      obtain nw sw dw where r: "r = (nw, sw, dw)" by (cases r)
      have dw: "dw = display_width s"
        using create_scrolling_display_widths Inr r by blast
      have "s' = animate (s\<lparr>north_group := Some 0, south_group := Some 0, north_width := nw,
                       south_width := sw, root_group := TrainScreen,
                       trace := trace s @ [TrainFetch, TimeFetch, DisplayUpdate TrainScreen]\<rparr>)"
        using assms fetched parsed Inr r dw
        by (cases "north_group s") (simp_all add: refresh_trains_def Let_def record_events_def)
      with that fetched parsed Inr r dw show ?thesis by blast
    qed
  qed
qed

lemma refresh_trains_groups:
  assumes "refresh_trains env s = (None, s')"
  shows "refresh_trains env (s\<lparr>north_group := a, south_group := b\<rparr>) = (None, s')"
proof -
  from assms obtain train_data trains nw sw where
    "train_response env = Inr train_data"
    "parse_train_times (local_time env) (host_time env) train_data 5 = Inr trains"
    "create_scrolling_display (render_fault env) (display_width s) trains (Some (weather s))
       = Inr (nw, sw, display_width s)"
    "s' = animate (s\<lparr>north_group := Some 0, south_group := Some 0, north_width := nw,
                       south_width := sw, root_group := TrainScreen,
                       trace := trace s @ [TrainFetch, TimeFetch, DisplayUpdate TrainScreen]\<rparr>)"
    by (rule refresh_trains_ok)
  then show ?thesis
    by (simp add: refresh_trains_def Let_def record_events_def)
qed

lemma refresh_trains_frames:
  assumes "refresh_trains env s = (None, s')"
  shows "scrolled (trace s') = scrolled (trace s)
           @ scroll_loop 600 (north_width s') (south_width s') (display_width s') (0, 0)
         \<and> 48 \<le> north_width s' \<and> 60 \<le> south_width s'"
proof -
  from assms obtain train_data trains nw sw where
    c: "create_scrolling_display (render_fault env) (display_width s) trains (Some (weather s))
       = Inr (nw, sw, display_width s)"
    and s': "s' = animate (s\<lparr>north_group := Some 0, south_group := Some 0, north_width := nw,
                       south_width := sw, root_group := TrainScreen,
                       trace := trace s @ [TrainFetch, TimeFetch, DisplayUpdate TrainScreen]\<rparr>)"
    by (rule refresh_trains_ok)
  have w: "48 \<le> nw \<and> 60 \<le> sw" using create_scrolling_display_widths [OF c] by simp
  have nw: "north_width s' = nw" and sw: "south_width s' = sw"
    and dw: "display_width s' = display_width s"
    by (simp_all add: s' animate_trace)
  have "trace s' = (trace s @ [TrainFetch, TimeFetch, DisplayUpdate TrainScreen])
                     @ map Scrolled (scroll_loop 600 nw sw (display_width s) (0, 0))"
    by (simp add: s' animate_trace)
  then have "scrolled (trace s') = (scrolled (trace s)
                @ scrolled [TrainFetch, TimeFetch, DisplayUpdate TrainScreen])
                @ scroll_loop 600 nw sw (display_width s) (0, 0)"
    by (simp only: scrolled_append scrolled_frames)
  moreover have "scrolled [TrainFetch, TimeFetch, DisplayUpdate TrainScreen] = []"
    by (simp add: scrolled_def)
  ultimately show ?thesis using w by (simp add: nw sw dw)
qed

text \<open>
  C10. Every pass that reaches the animation starts both lines at 0, whatever the
  groups' positions were before: the frames of the pass are those of \<open>scroll_loop\<close>
  from \<open>(0, 0)\<close>, the first is \<open>(- 1, - 1)\<close>, and the two lines show the same
  position until the shorter one wraps. The state after the pass does not depend on
  the positions before it.
\<close>

theorem cycle_scroll_phase:
  assumes "cycle env s = (None, s')" and "monotonic env - startup_time s < 20 * 60"
  shows "scrolled (trace s') = scrolled (trace s)
           @ scroll_loop 600 (north_width s') (south_width s') (display_width s') (0, 0) \<and>
         scroll_loop 600 (north_width s') (south_width s') (display_width s') (0, 0) ! 0
           = (- 1, - 1) \<and>
         (\<forall>k<600. int k + 1 < min (north_width s') (south_width s') \<longrightarrow>
            scroll_loop 600 (north_width s') (south_width s') (display_width s') (0, 0) ! k
              = (- (int k + 1), - (int k + 1))) \<and>
         cycle env (s\<lparr>north_group := a, south_group := b\<rparr>) = (None, s')"
proof -
  obtain s1 where w: "refresh_weather env (monotonic env) s = (None, s1)"
    and t: "refresh_trains env s1 = (None, s')"
    using assms by (auto simp: cycle_def Let_def split: prod.splits option.splits)
  have frames: "scrolled (trace s') = scrolled (trace s1)
           @ scroll_loop 600 (north_width s') (south_width s') (display_width s') (0, 0)"
    and widths: "48 \<le> north_width s'" "60 \<le> south_width s'"
    using refresh_trains_frames [OF t] by simp_all
  have "scrolled (trace s1) = scrolled (trace s)" using refresh_weather_ok [OF w] by simp
  moreover have "scroll_loop 600 (north_width s') (south_width s') (display_width s') (0, 0) ! 0
           = (- 1, - 1)"
    using scroll_loop_in_phase [of 0 600 "north_width s'" "south_width s'"] widths by simp
  moreover have "\<forall>k<600. int k + 1 < min (north_width s') (south_width s') \<longrightarrow>
            scroll_loop 600 (north_width s') (south_width s') (display_width s') (0, 0) ! k
              = (- (int k + 1), - (int k + 1))"
    using scroll_loop_in_phase by simp
  moreover have "cycle env (s\<lparr>north_group := a, south_group := b\<rparr>) = (None, s')"
  proof -
    have "refresh_trains env (s1\<lparr>north_group := a, south_group := b\<rparr>) = (None, s')"
      by (rule refresh_trains_groups [OF t])
    then show ?thesis using assms(2) w
      by (simp add: cycle_def Let_def refresh_weather_groups)
  qed
  ultimately show ?thesis using frames by simp
qed

lemma calm_parse: "parse_train_times (Inr (Epoch 0)) 0 (JObj []) 5 = Inr empty_schedule"
  by (simp add: parse_train_times_def get_current_time_utc_def bind_def)

lemma calm_display:
  "create_scrolling_display None 64 empty_schedule (Some w)
     = Inr (north_line_width [] (Some w), south_line_width [] (Some w), 64)"
  by (simp add: create_scrolling_display_def empty_schedule_def string_routes_def bind_def
      format_train_text_with_badges_def)

lemma calm_cycle: "fst (cycle calm (start 0 w 1 64)) = None"
  by (simp add: cycle_def calm_def start_def refresh_weather_def refresh_trains_def Let_def
      record_events_def calm_parse calm_display)

theorem cycle_scroll_phase_witness:
  "cycle calm (start 0 \<lparr>description = ''Rain'', temp_f = 45\<rparr> 1 64)
     = (None, snd (cycle calm (start 0 \<lparr>description = ''Rain'', temp_f = 45\<rparr> 1 64))) \<and>
   monotonic calm - startup_time (start 0 \<lparr>description = ''Rain'', temp_f = 45\<rparr> 1 64) < 20 * 60 \<and>
   scroll_loop 600
     (north_width (snd (cycle calm (start 0 \<lparr>description = ''Rain'', temp_f = 45\<rparr> 1 64))))
     (south_width (snd (cycle calm (start 0 \<lparr>description = ''Rain'', temp_f = 45\<rparr> 1 64))))
     (display_width (snd (cycle calm (start 0 \<lparr>description = ''Rain'', temp_f = 45\<rparr> 1 64))))
     (0, 0) ! 0 = (- 1, - 1)"
proof -
  let ?s = "start 0 \<lparr>description = ''Rain'', temp_f = 45\<rparr> 1 64"
  let ?s' = "snd (cycle calm ?s)"
  have c: "cycle calm ?s = (None, ?s')"
    using calm_cycle [of "\<lparr>description = ''Rain'', temp_f = 45\<rparr>"] by (simp add: prod_eq_iff)
  have t: "monotonic calm - startup_time ?s < 20 * 60" by (simp add: calm_def start_def)
  show ?thesis using cycle_scroll_phase [OF c t, of None None] c t by simp
qed

lemma fetch_weather_data_total: "\<exists>w. fetch_weather_data sec resp rp = Inr w"
  by (simp add: fetch_weather_data_def split: sum.splits)

lemma refresh_weather_no_fault: "fst (refresh_weather env t s) = None"
  using fetch_weather_data_total [of "secrets env" "weather_response env" "repr env"]
  by (auto simp: refresh_weather_def)

lemma refresh_weather_keeps:
  "mode (snd (refresh_weather env t s)) = mode s"
  "startup_time (snd (refresh_weather env t s)) = startup_time s"
  "display_width (snd (refresh_weather env t s)) = display_width s"
  by (auto simp: refresh_weather_def record_events_def split: sum.splits)

lemma refresh_trains_keeps:
  "mode (snd (refresh_trains env s)) = mode s"
  "startup_time (snd (refresh_trains env s)) = startup_time s"
  by (auto simp: refresh_trains_def record_events_def animate_def Let_def
      split: sum.splits prod.splits)

lemma cycle_below_cap:
  assumes "monotonic env - startup_time s < 20 * 60"
  shows "cycle env s = refresh_trains env (snd (refresh_weather env (monotonic env) s))"
proof -
  obtain f s1 where r: "refresh_weather env (monotonic env) s = (f, s1)"
    by (cases "refresh_weather env (monotonic env) s")
  then have "f = None" using refresh_weather_no_fault [of env "monotonic env" s] by simp
  with r assms show ?thesis by (simp add: cycle_def)
qed

lemma cycle_keeps:
  assumes "monotonic env - startup_time s < 20 * 60"
  shows "mode (snd (cycle env s)) = mode s" "startup_time (snd (cycle env s)) = startup_time s"
  by (simp_all add: cycle_below_cap [OF assms] refresh_trains_keeps refresh_weather_keeps)

lemma step_keeps:
  assumes "mode s = Active" "monotonic env - startup_time s < 20 * 60"
  shows "mode (step env s) = Active" "startup_time (step env s) = startup_time s"
proof -
  obtain f s' where c: "cycle env s = (f, s')" by (cases "cycle env s")
  have "mode s' = Active" "startup_time s' = startup_time s"
    using cycle_keeps [OF assms(2)] c assms(1) by simp_all
  then show "mode (step env s) = Active" "startup_time (step env s) = startup_time s"
    using assms(1) c by (cases f; simp add: step_def record_events_def)+
qed










text \<open>
  C4 (as amended). In an Active pass below the cap, an exception of the train
  fetch, of the parsing or of the compositing ends the pass in the handler: it is
  logged, the loop sleeps 10 seconds, and the session is still Active for the next
  pass. The program keeps no count of the retries.
\<close>

theorem cycle_fault_backoff:
  assumes "mode s = Active" and "monotonic env - startup_time s < 20 * 60"
    and "train_response env = Inl e \<or>
         (\<exists>d. train_response env = Inr d \<and>
               parse_train_times (local_time env) (host_time env) d 5 = Inl e) \<or>
         (\<exists>d trains. train_response env = Inr d \<and>
               parse_train_times (local_time env) (host_time env) d 5 = Inr trains \<and>
               create_scrolling_display (render_fault env) (display_width s) trains
                 (Some (weather (snd (refresh_weather env (monotonic env) s)))) = Inl e)"
  shows "\<exists>s'. cycle env s = (Some e, s') \<and>
              step env s = s'\<lparr>trace := trace s' @ [Logged e, Slept 10]\<rparr> \<and>
              mode (step env s) = Active"
proof -
  let ?s1 = "snd (refresh_weather env (monotonic env) s)"
  have c: "cycle env s = refresh_trains env ?s1" by (rule cycle_below_cap [OF assms(2)])
  have dw: "display_width ?s1 = display_width s" by (simp add: refresh_weather_keeps)
  have "fst (refresh_trains env ?s1) = Some e"
    using assms(3) dw
    by (auto simp: refresh_trains_def Let_def record_events_def split: if_splits)
  then obtain s' where s': "cycle env s = (Some e, s')"
    using c by (cases "refresh_trains env ?s1") simp
  then have "step env s = s'\<lparr>trace := trace s' @ [Logged e, Slept 10]\<rparr>"
    using assms(1) by (simp add: step_def record_events_def)
  moreover have "mode (step env s) = Active" by (rule step_keeps [OF assms(1,2)])
  ultimately show ?thesis using s' by blast
qed

theorem cycle_fault_backoff_witness:
  "mode (start 0 \<lparr>description = ''Rain'', temp_f = 45\<rparr> 1 64) = Active \<and>
   monotonic offline - startup_time (start 0 \<lparr>description = ''Rain'', temp_f = 45\<rparr> 1 64) < 20 * 60 \<and>
   train_response offline = Inl OSError \<and>
   (\<exists>s'. cycle offline (start 0 \<lparr>description = ''Rain'', temp_f = 45\<rparr> 1 64) = (Some OSError, s') \<and>
         step offline (start 0 \<lparr>description = ''Rain'', temp_f = 45\<rparr> 1 64)
           = s'\<lparr>trace := trace s' @ [Logged OSError, Slept 10]\<rparr> \<and>
         mode (step offline (start 0 \<lparr>description = ''Rain'', temp_f = 45\<rparr> 1 64)) = Active)"
proof -
  let ?s = "start 0 \<lparr>description = ''Rain'', temp_f = 45\<rparr> 1 64"
  have a: "mode ?s = Active" by (simp add: start_def)
  have b: "monotonic offline - startup_time ?s < 20 * 60"
    by (simp add: offline_def calm_def start_def)
  have c: "train_response offline = Inl OSError" by (simp add: offline_def)
  show ?thesis
    using cycle_fault_backoff [of ?s offline OSError, OF a b] a b c by blast
qed

text \<open>
  C4 as stated fails on the retry count: after a pass whose train fetch raises, the
  state of the session is the state before it but for the trace, so no variable has
  been incremented.
\<close>

theorem no_retry_count:
  "step offline (start 0 \<lparr>description = ''Rain'', temp_f = 45\<rparr> 1 64)
     = (start 0 \<lparr>description = ''Rain'', temp_f = 45\<rparr> 1 64)
         \<lparr>trace := trace (start 0 \<lparr>description = ''Rain'', temp_f = 45\<rparr> 1 64)
                     @ [TrainFetch, Logged OSError, Slept 10]\<rparr>"
  by (simp add: step_def cycle_def offline_def calm_def start_def refresh_weather_def
      refresh_trains_def record_events_def Let_def)

section \<open>Clock readings and timestamps\<close>

text \<open>
  C6. The two spellings of the instant parse to the same UTC epoch: each is the
  calendar arithmetic of its date and time fields, minus its signed offset in
  seconds.
\<close>

theorem iso8601_same_instant:
  "parse_iso8601_to_utc ''2026-01-07T14:33:01-05:00''
     = Inr (mktime (2026, 1, 7, 14, 33, 1) - real_of_int (- 1 * (5 * 3600 + 0 * 60))) \<and>
   parse_iso8601_to_utc ''2026-01-07T19:33:01+00:00''
     = Inr (mktime (2026, 1, 7, 19, 33, 1) - real_of_int (1 * (0 * 3600 + 0 * 60))) \<and>
   parse_iso8601_to_utc ''2026-01-07T14:33:01-05:00''
     = parse_iso8601_to_utc ''2026-01-07T19:33:01+00:00''"
  by code_simp

lemma default_offset:
  "index0 ''+0000'' 0 = Inr CHR ''+''"
  "py_int (slice (Suc 0) 3 ''+0000'') = Inr 0"
  "py_int (slice 3 5 ''+0000'') = Inr 0"
  by code_simp+

lemma parse_time_text_absent:
  assumes "length (split_ws s) \<le> 4"
  shows "parse_time_text s = local_epoch (split_ws s)"
proof -
  have "\<not> 4 < length (split_ws s)" using assms by simp
  then show ?thesis
    unfolding parse_time_text_def local_epoch_def Let_def
    by (auto simp: bind_def default_offset split: sum.splits prod.splits)
qed

text \<open>
  C5 (as amended). A clock text with fewer than five tokens has no offset token:
  \<open>+0000\<close> is used and the local epoch of the date and time tokens is returned
  unchanged. A text whose parsing raises ValueError or IndexError, as a text with a
  malformed offset token does, gives the host's clock instead of an exception.
\<close>

theorem clock_text_default_and_fallback:
  "(length (split_ws s) \<le> 4 \<and> local_epoch (split_ws s) = Inr t
      \<longrightarrow> get_current_time_utc (Inr (TimeText s)) host = Inr t) \<and>
   (parse_time_text s = Inl e \<and> (e = ValueError \<or> e = IndexError)
      \<longrightarrow> get_current_time_utc (Inr (TimeText s)) host = Inr host)"
  using parse_time_text_absent [of s]
  by (auto simp: get_current_time_utc_def bind_def)

lemma sample_local_epoch:
  "local_epoch (split_ws ''2026-01-07 12:07:30.065'') = Inr 1767787650"
  by code_simp

lemma sample_length: "length (split_ws ''2026-01-07 12:07:30.065'') \<le> 4"
  by code_simp

lemma sample_malformed: "parse_time_text ''2026-01-07 12:07:30.065 007 3 PST'' = Inl ValueError"
  by code_simp

theorem clock_text_default_and_fallback_witness:
  "length (split_ws ''2026-01-07 12:07:30.065'') \<le> 4 \<and>
   local_epoch (split_ws ''2026-01-07 12:07:30.065'') = Inr 1767787650 \<and>
   get_current_time_utc (Inr (TimeText ''2026-01-07 12:07:30.065'')) 5 = Inr 1767787650 \<and>
   parse_time_text ''2026-01-07 12:07:30.065 007 3 PST'' = Inl ValueError \<and>
   get_current_time_utc (Inr (TimeText ''2026-01-07 12:07:30.065 007 3 PST'')) 5 = Inr 5"
  using clock_text_default_and_fallback
          [of "''2026-01-07 12:07:30.065''" 1767787650 5 ValueError]
        clock_text_default_and_fallback
          [of "''2026-01-07 12:07:30.065 007 3 PST''" 0 5 ValueError]
        sample_local_epoch sample_length sample_malformed
  by simp

lemma sample_malformed_local:
  "local_epoch (split_ws ''2026-01-07 12:07:30.065 007 3 PST'') = Inr 1767787650"
  by code_simp

text \<open>
  C5 as stated fails for a malformed offset token: with the zone name in the place
  of the offset, the result is the host's clock (0 here), not the local epoch of
  the text.
\<close>

theorem malformed_offset_not_defaulted:
  "local_epoch (split_ws ''2026-01-07 12:07:30.065 007 3 PST'') = Inr 1767787650 \<and>
   get_current_time_utc (Inr (TimeText ''2026-01-07 12:07:30.065 007 3 PST'')) 0 = Inr 0"
  using sample_malformed sample_malformed_local
  by (simp add: get_current_time_utc_def bind_def)

lemma process_train_record:
  assumes "arrival_record tr"
  shows "process_train now m tr
           = Inr (if eta_minutes (scheduled_at tr) now > m then [normalized_arrival now tr] else [])"
proof -
  from assms obtain kvs r t u where tr: "tr = JObj kvs"
    and r: "map_of kvs ''route'' = Some r" and t: "map_of kvs ''time'' = Some (JStr t)"
    and u: "parse_iso8601_to_utc t = Inr u"
    by (auto simp: arrival_record_def split: json.splits option.splits sum.splits)
  have "scheduled_at tr = u" by (simp add: scheduled_at_def field_def tr t u)
  then show ?thesis
    by (simp add: process_train_def bind_def tr r t u normalized_arrival_def field_def)
qed

lemma process_trains_records:
  assumes "list_all arrival_record trs"
  shows "process_trains now m trs = Inr (filter_and_group now m trs)"
  using assms
proof (induction trs)
  case Nil show ?case by (simp add: filter_and_group_def)
next
  case (Cons tr trs)
  then have "arrival_record tr" and "list_all arrival_record trs" by simp_all
  then show ?case
    using Cons.IH by (simp add: process_train_record bind_def filter_and_group_def)
qed

lemma process_direction_records:
  assumes "records station key = Some trs" "list_all arrival_record trs"
  shows "process_direction now m (JObj station) key = Inr (filter_and_group now m trs)"
proof (cases "map_of station key")
  case None
  then have "key \<notin> set (map fst station)" by (simp add: map_of_eq_None_iff)
  moreover have "trs = []" using assms(1) None by (simp add: records_def)
  ultimately show ?thesis by (simp add: process_direction_def bind_def filter_and_group_def)
next
  case (Some v)
  then have "key \<in> set (map fst station)"
    by (metis map_of_eq_None_iff option.distinct(1) set_map)
  moreover have "v = JArr trs"
    using assms(1) Some by (simp add: records_def split: json.splits)
  ultimately show ?thesis
    using Some assms(2) by (simp add: process_direction_def bind_def process_trains_records)
qed

lemma eta_examples: "eta_minutes (now + 361) now = 6" "eta_minutes (now + 300) now = 5"
  by (simp_all add: eta_minutes_def trunc_def)

section \<open>The schedule\<close>

text \<open>
  C1. With the clock read as \<open>now\<close> and a feed whose first station lists arrival
  records, \<open>parse_train_times\<close> returns, per direction and in the feed's order,
  exactly the records whose \<open>int((parse_iso8601_to_utc(time) - now) / 60)\<close> is
  strictly greater than the threshold, each with that number of minutes. An arrival
  361 seconds away has 6 minutes and passes a threshold of 5; one 300 seconds away
  has 5 and does not.
\<close>

theorem parse_train_times_threshold:
  assumes "get_current_time_utc get_local_time host = Inr now"
    and "map_of payload ''data'' = Some (JArr (JObj station # others))"
    and "records station ''N'' = Some north" and "records station ''S'' = Some south"
    and "list_all arrival_record (north @ south)"
  shows "parse_train_times get_local_time host (JObj payload) min_minutes
           = Inr \<lparr>northbound = filter_and_group now min_minutes north,
                  southbound = filter_and_group now min_minutes south\<rparr> \<and>
         filter_and_group now min_minutes north
           = map (normalized_arrival now)
               (filter (\<lambda>tr. eta_minutes (scheduled_at tr) now > min_minutes) north) \<and>
         eta_minutes (now + 361) now = 6 \<and> eta_minutes (now + 300) now = 5"
proof -
  have d: "''data'' \<in> set (map fst payload)"
    using assms(2) by (metis map_of_eq_None_iff option.distinct(1) set_map)
  have n: "process_direction now min_minutes (JObj station) ''N''
             = Inr (filter_and_group now min_minutes north)"
    using assms(3,5) by (intro process_direction_records) simp_all
  have s: "process_direction now min_minutes (JObj station) ''S''
             = Inr (filter_and_group now min_minutes south)"
    using assms(4,5) by (intro process_direction_records) simp_all
  have "parse_train_times get_local_time host (JObj payload) min_minutes
           = Inr \<lparr>northbound = filter_and_group now min_minutes north,
                  southbound = filter_and_group now min_minutes south\<rparr>"
    using assms(1,2) d by (simp add: parse_train_times_def bind_def n s)
  then show ?thesis by (simp add: filter_and_group_def eta_examples)
qed

lemma feed_at_now_records:
  "list_all arrival_record
     ([JObj [(''route'', JStr ''A''), (''time'', JStr ''2026-01-07T14:39:02-05:00'')],
       JObj [(''route'', JStr ''C''), (''time'', JStr ''2026-01-07T14:38:01-05:00'')]] @ [])"
  by code_simp

lemma feed_at_now_kept:
  "filter_and_group 1767814381 5
     [JObj [(''route'', JStr ''A''), (''time'', JStr ''2026-01-07T14:39:02-05:00'')],
      JObj [(''route'', JStr ''C''), (''time'', JStr ''2026-01-07T14:38:01-05:00'')]]
   = [\<lparr>route = JStr ''A'', minutes_until = 6, time = JStr ''2026-01-07T14:39:02-05:00''\<rparr>]"
  by code_simp

theorem parse_train_times_threshold_witness:
  "get_current_time_utc (Inr (Epoch 1767814381)) 0 = Inr 1767814381 \<and>
   parse_train_times (Inr (Epoch 1767814381)) 0 feed_at_now 5
     = Inr \<lparr>northbound =
              [\<lparr>route = JStr ''A'', minutes_until = 6,
                time = JStr ''2026-01-07T14:39:02-05:00''\<rparr>],
            southbound = []\<rparr>"
proof -
  have c: "get_current_time_utc (Inr (Epoch 1767814381)) 0 = Inr 1767814381"
    by (simp add: get_current_time_utc_def bind_def)
  have p: "map_of [(''data'', JArr [JObj
       [(''N'', JArr [JObj [(''route'', JStr ''A''), (''time'', JStr ''2026-01-07T14:39:02-05:00'')],
                      JObj [(''route'', JStr ''C''), (''time'', JStr ''2026-01-07T14:38:01-05:00'')]]),
        (''S'', JArr [])]])] ''data''
      = Some (JArr (JObj [(''N'', JArr [JObj [(''route'', JStr ''A''), (''time'', JStr ''2026-01-07T14:39:02-05:00'')],
                      JObj [(''route'', JStr ''C''), (''time'', JStr ''2026-01-07T14:38:01-05:00'')]]),
        (''S'', JArr [])] # []))"
    by simp
  have n: "records [(''N'', JArr [JObj [(''route'', JStr ''A''), (''time'', JStr ''2026-01-07T14:39:02-05:00'')],
                      JObj [(''route'', JStr ''C''), (''time'', JStr ''2026-01-07T14:38:01-05:00'')]]),
        (''S'', JArr [])] ''N''
      = Some [JObj [(''route'', JStr ''A''), (''time'', JStr ''2026-01-07T14:39:02-05:00'')],
              JObj [(''route'', JStr ''C''), (''time'', JStr ''2026-01-07T14:38:01-05:00'')]]"
    by (simp add: records_def)
  have s: "records [(''N'', JArr [JObj [(''route'', JStr ''A''), (''time'', JStr ''2026-01-07T14:39:02-05:00'')],
                      JObj [(''route'', JStr ''C''), (''time'', JStr ''2026-01-07T14:38:01-05:00'')]]),
        (''S'', JArr [])] ''S'' = Some []"
    by (simp add: records_def)
  have e: "filter_and_group 1767814381 5 [] = []" by (simp add: filter_and_group_def)
  show ?thesis
    using parse_train_times_threshold [OF c p n s feed_at_now_records, of 5, THEN conjunct1] c
    by (simp only: feed_at_now_def feed_at_now_kept e)
qed

text \<open>
  C8 (as amended). \<open>parse_train_times\<close> reads the clock before it looks at the
  payload. Once that read has returned a time, a payload without the key \<open>data\<close>,
  or whose \<open>data\<close> has length 0, gives the empty schedule and no exception.
\<close>

theorem parse_train_times_no_data:
  assumes "get_current_time_utc get_local_time host = Inr now"
    and "map_of payload ''data'' = None \<or>
         (\<exists>d. map_of payload ''data'' = Some d \<and> len d = Inr 0)"
  shows "parse_train_times get_local_time host (JObj payload) min_minutes
           = Inr \<lparr>northbound = [], southbound = []\<rparr>"
proof -
  from assms(2) show ?thesis
  proof
    assume "map_of payload ''data'' = None"
    then have "''data'' \<notin> set (map fst payload)" by (simp add: map_of_eq_None_iff)
    then show ?thesis
      using assms(1) by (simp add: parse_train_times_def bind_def empty_schedule_def)
  next
    assume "\<exists>d. map_of payload ''data'' = Some d \<and> len d = Inr 0"
    then obtain d where d: "map_of payload ''data'' = Some d" "len d = Inr 0" by blast
    then have "''data'' \<in> set (map fst payload)"
      by (metis map_of_eq_None_iff option.distinct(1) set_map)
    then show ?thesis
      using assms(1) d by (simp add: parse_train_times_def bind_def empty_schedule_def)
  qed
qed

theorem parse_train_times_no_data_witness:
  "get_current_time_utc (Inr (Epoch 1767814381)) 0 = Inr 1767814381 \<and>
   map_of [] ''data'' = (None :: json option) \<and>
   parse_train_times (Inr (Epoch 1767814381)) 0 (JObj []) 5
     = Inr \<lparr>northbound = [], southbound = []\<rparr> \<and>
   map_of [(''data'', JArr [])] ''data'' = Some (JArr []) \<and> len (JArr []) = Inr 0 \<and>
   parse_train_times (Inr (Epoch 1767814381)) 0 (JObj [(''data'', JArr [])]) 5
     = Inr \<lparr>northbound = [], southbound = []\<rparr>"
proof -
  have c: "get_current_time_utc (Inr (Epoch 1767814381)) 0 = Inr 1767814381"
    by (simp add: get_current_time_utc_def bind_def)
  have a: "map_of [] ''data'' = (None :: json option) \<or>
           (\<exists>d. map_of [] ''data'' = Some d \<and> len d = Inr 0)" by simp
  have b: "map_of [(''data'', JArr [])] ''data'' = None \<or>
           (\<exists>d. map_of [(''data'', JArr [])] ''data'' = Some d \<and> len d = Inr 0)" by simp
  show ?thesis
    using parse_train_times_no_data [OF c a, of 5] parse_train_times_no_data [OF c b, of 5] c
    by simp
qed

text \<open>
  C8 as stated fails when the clock cannot be read: the exception of
  \<open>get_local_time\<close> leaves \<open>parse_train_times\<close> before the payload is tested,
  for a payload without \<open>data\<close> and for one whose \<open>data\<close> is empty.
\<close>

theorem no_data_clock_fault:
  "parse_train_times (Inl OSError) 0 (JObj []) 5 = Inl OSError \<and>
   parse_train_times (Inl OSError) 0 (JObj [(''data'', JArr [])]) 5 = Inl OSError"
  by (simp add: parse_train_times_def get_current_time_utc_def bind_def)

section \<open>The weather snapshot\<close>







section \<open>Routes of a line\<close>

lemma append_time_keys:
  "map fst (append_time r m d)
     = (if r \<in> fst ` set d then map fst d else map fst d @ [r])"
  by (induction d) (force simp: image_iff)+

lemma append_time_key_set: "fst ` set (append_time r m d) = insert r (fst ` set d)"
  using arg_cong [OF append_time_keys [of r m d], of set] by auto

lemma append_time_distinct:
  "distinct (map fst d) \<Longrightarrow> distinct (map fst (append_time r m d))"
  by (simp add: append_time_keys)

lemma append_time_lookup:
  "times_of (append_time r m d) k = (if k = r then times_of d r @ [m] else times_of d k)"
  by (induction d) (auto simp: times_of_def)

lemma keys_lookup:
  "distinct (map fst d) \<Longrightarrow> (k, ms) \<in> set d \<Longrightarrow> times_of d k = ms"
  by (simp add: times_of_def)

lemma group_from:
  "fst ` set (foldl (\<lambda>d t. append_time (route t) (minutes_until t) d) d ts)
     = fst ` set d \<union> route ` set ts"
  "distinct (map fst d) \<Longrightarrow>
     distinct (map fst (foldl (\<lambda>d t. append_time (route t) (minutes_until t) d) d ts))"
  "times_of (foldl (\<lambda>d t. append_time (route t) (minutes_until t) d) d ts) k
     = times_of d k @ map minutes_until (filter (\<lambda>t. route t = k) ts)"
proof (induction ts arbitrary: d)
  case Nil
  { case 1 show ?case by simp }
  { case 2 then show ?case by simp }
  { case 3 show ?case by simp }
next
  case (Cons t ts)
  { case 1 show ?case by (simp add: Cons.IH(1) append_time_key_set) }
  { case 2 then show ?case by (simp add: Cons.IH(2) append_time_distinct) }
  { case 3 show ?case by (simp add: Cons.IH(3) append_time_lookup) }
qed

lemma group_times_facts:
  "fst ` set (group_times trains) = route ` set trains"
  "distinct (map fst (group_times trains))"
  "(r, ms) \<in> set (group_times trains)
     \<Longrightarrow> ms = map minutes_until (filter (\<lambda>t. route t = r) trains)"
proof -
  show "fst ` set (group_times trains) = route ` set trains"
    by (simp add: group_times_def group_from(1))
  show d: "distinct (map fst (group_times trains))"
    by (simp add: group_times_def group_from(2))
  assume "(r, ms) \<in> set (group_times trains)"
  then have "times_of (group_times trains) r = ms" using d by (rule keys_lookup [rotated])
  moreover have "times_of (group_times trains) r
                   = times_of [] r @ map minutes_until (filter (\<lambda>t. route t = r) trains)"
    by (simp only: group_times_def group_from(3))
  moreover have "times_of [] r = []" by (simp add: times_of_def)
  ultimately show "ms = map minutes_until (filter (\<lambda>t. route t = r) trains)" by simp
qed

lemma distinct_insort_key:
  "distinct (map f (insort_key f x xs)) = (f x \<notin> f ` set xs \<and> distinct (map f xs))"
  by (induction xs) (auto simp: set_insort_key)

lemma distinct_sort_key: "distinct (map f (sort_key f xs)) = distinct (map f xs)"
  by (induction xs) (simp_all add: distinct_insort_key)

text \<open>
  C2. The line's groups come out in ascending order of their routes, one group per
  route of the input; the text of a group is the comma-joined first three ETAs of
  that route in input order, never more than three.
\<close>

theorem routes_sorted_three_each:
  fixes trains :: "('r::linorder) train list"
  shows "sorted (map fst (format_train_text_with_badges trains)) \<and>
         distinct (map fst (format_train_text_with_badges trains)) \<and>
         set (map fst (format_train_text_with_badges trains)) = route ` set trains \<and>
         (\<forall>(r, text) \<in> set (format_train_text_with_badges trains).
            text = join '','' (map str_int
                     (take 3 (map minutes_until (filter (\<lambda>t. route t = r) trains)))) \<and>
            length (take 3 (map minutes_until (filter (\<lambda>t. route t = r) trains))) \<le> 3)"
proof (cases "trains = []")
  case True
  then show ?thesis by (simp add: format_train_text_with_badges_def)
next
  case False
  let ?g = "sort_key fst (group_times trains)"
  have keys: "map fst (format_train_text_with_badges trains) = map fst ?g"
    using False by (simp add: format_train_text_with_badges_def split_def comp_def)
  have "sorted (map fst ?g)" by (rule sorted_sort_key)
  moreover have "distinct (map fst ?g)"
    by (simp add: distinct_sort_key group_times_facts(2))
  moreover have "set (map fst ?g) = route ` set trains"
    using group_times_facts(1) [of trains] by simp
  moreover have "\<forall>(r, text) \<in> set (format_train_text_with_badges trains).
            text = join '','' (map str_int
                     (take 3 (map minutes_until (filter (\<lambda>t. route t = r) trains)))) \<and>
            length (take 3 (map minutes_until (filter (\<lambda>t. route t = r) trains))) \<le> 3"
    using False group_times_facts(3) [of _ _ trains]
    by (auto simp: format_train_text_with_badges_def)
  ultimately show ?thesis by (simp only: keys)
qed

lemma rush_hour_text:
  "format_train_text_with_badges rush_hour = [(''A'', ''7''), (''C'', ''6,9,12'')]"
  by code_simp

theorem routes_sorted_three_each_witness:
  "format_train_text_with_badges rush_hour = [(''A'', ''7''), (''C'', ''6,9,12'')] \<and>
   sorted [''A'', ''C''] \<and>
   ''6,9,12'' = join '','' (map str_int
                  (take 3 (map minutes_until (filter (\<lambda>t. route t = ''C'') rush_hour))))"
  using routes_sorted_three_each [of rush_hour] by (simp add: rush_hour_text)

text \<open>
  The other grouping, \<open>get_next_trains_by_route\<close>, is not called by the main
  program. It keeps one ETA per route and direction, the first, with the routes in
  the order of their first appearance.
\<close>

lemma get_next_trains_by_route_rush_hour:
  "get_next_trains_by_route rush_hour [] = [(''C'', Some 6, None), (''A'', Some 7, None)]"
  by code_simp

end
